theory Spec2Isabelle
  imports Complex_Main "HOL-Library.Sublist"
begin

section \<open>Values, exceptions and the world the notebook code runs in\<close>

text \<open>
  The code of \<^verbatim>\<open>xgboost_synthetic/build-train-deploy.ipynb\<close> is glue around
  scikit-learn, XGBoost, joblib and numpy. The libraries are not part of the repository,
  so every library entry point the code calls is a field of the record \<open>libs\<close> below:
  a parameter of the model. What the repository's own code decides (which calls, in which
  order, with which arguments, and what it does with the results) is translated line by
  line.

  A Python float is a \<open>real\<close>, a Python int an \<open>int\<close>, a \<open>str\<close> a \<open>string\<close>. A
  feature matrix is the list of its rows, a label or prediction vector a list.
\<close>

type_synonym path = string
type_synonym matrix = "real list list"
type_synonym vec = "real list"

text \<open>
  An exception is a value. \<open>LibraryError\<close> stands for whatever a library raises;
  \<open>AttributeError\<close> is what the interpreter raises for \<^verbatim>\<open>None.predict\<close>,
  \<open>IndexError\<close> what numpy's \<^verbatim>\<open>item\<close> raises out of range.
\<close>

datatype exn = LibraryError string | AttributeError | IndexError

text \<open>Arguments of \<^verbatim>\<open>print\<close> and \<^verbatim>\<open>logging.info\<close>.\<close>

datatype pyval = PStr string | PFloat real | PInt int

text \<open>
  Everything observable is an event: output, log records and the library calls, each
  with the arguments the code passes.
\<close>

datatype 'm event =
    Print "pyval list"
  | LogInfo string "pyval list"
  | MakeRegression int int real
  | TrainTestSplit matrix vec real bool
  | NewSimpleImputer
  | ImputerFitTransform matrix
  | ImputerTransform matrix
  | NewXGBRegressor int real
  | Fit 'm matrix vec int "(matrix \<times> vec) list"
  | ModelPredict 'm matrix
  | MeanAbsoluteError vec vec
  | JoblibDump 'm path
  | JoblibLoad path

text \<open>
  The world: the file system (a file holds a payload of the serializer's type \<open>'p\<close>),
  \<^verbatim>\<open>os.environ\<close>, the state of the random number generator, and the events so far.
\<close>

record ('m, 'p) world =
  files :: "path \<rightharpoonup> 'p"
  environ :: "string \<rightharpoonup> string"
  rng :: nat
  trace :: "'m event list"

text \<open>
  The libraries. \<open>'m\<close> is the type of model objects (an \<^verbatim>\<open>XGBRegressor\<close>, or
  whatever object a model file holds), \<open>'p\<close> the serialized form. \<open>truthy\<close> is
  Python's truth value of a model object (\<^verbatim>\<open>__bool__\<close>, else \<^verbatim>\<open>__len__\<close>, else
  true). A fitted imputer is represented by the matrix it was fitted on.
\<close>

record ('m, 'p) libs =
  make_regression :: "int \<Rightarrow> int \<Rightarrow> real \<Rightarrow> nat \<Rightarrow> (exn + matrix \<times> vec) \<times> nat"
  train_test_split :: "matrix \<Rightarrow> vec \<Rightarrow> real \<Rightarrow> bool \<Rightarrow> exn + matrix \<times> matrix \<times> vec \<times> vec"
  imputer_fit_transform :: "matrix \<Rightarrow> exn + matrix"
  imputer_transform :: "matrix \<Rightarrow> matrix \<Rightarrow> exn + matrix"
  XGBRegressor :: "int \<Rightarrow> real \<Rightarrow> exn + 'm"
  model_fit :: "'m \<Rightarrow> matrix \<Rightarrow> vec \<Rightarrow> int \<Rightarrow> (matrix \<times> vec) list \<Rightarrow> exn + 'm"
  best_score :: "'m \<Rightarrow> exn + real"
  best_iteration :: "'m \<Rightarrow> exn + int"
  model_predict :: "'m \<Rightarrow> matrix \<Rightarrow> exn + vec"
  mean_absolute_error :: "vec \<Rightarrow> vec \<Rightarrow> exn + real"
  joblib_dump :: "'m \<Rightarrow> path \<Rightarrow> (path \<rightharpoonup> 'p) \<Rightarrow> (exn + unit) \<times> (path \<rightharpoonup> 'p)"
  joblib_load :: "(path \<rightharpoonup> 'p) \<Rightarrow> path \<Rightarrow> exn + 'm option"
  truthy :: "'m \<Rightarrow> bool"

subsection \<open>Sequencing with exceptions\<close>

text \<open>
  A statement maps a state to its outcome (an exception or a value) and the state it
  leaves. \<open>bindE\<close> is the semicolon: an exception of the first statement ends the
  sequence, and the state reached so far stays. The source has no
  \<^verbatim>\<open>try\<close>, so no other combinator is needed.
\<close>

type_synonym ('a, 's) prog = "'s \<Rightarrow> (exn + 'a) \<times> 's"

definition returnE :: "'a \<Rightarrow> ('a, 's) prog" where
  "returnE a s = (Inr a, s)"

definition bindE :: "('a, 's) prog \<Rightarrow> ('a \<Rightarrow> ('b, 's) prog) \<Rightarrow> ('b, 's) prog" where
  "bindE m f s = (case m s of (Inl e, s') \<Rightarrow> (Inl e, s') | (Inr a, s') \<Rightarrow> f a s')"

definition liftE :: "exn + 'a \<Rightarrow> ('a, 's) prog" where
  "liftE r s = (r, s)"

definition emit :: "'m event \<Rightarrow> (unit, ('m, 'p) world) prog" where
  "emit ev w = (Inr (), w\<lparr>trace := trace w @ [ev]\<rparr>)"

text \<open>A library call that has no effect on the world but its event.\<close>

definition call :: "'m event \<Rightarrow> exn + 'a \<Rightarrow> ('a, ('m, 'p) world) prog" where
  "call ev r = bindE (emit ev) (\<lambda>_. liftE r)"

section \<open>HousingServe\<close>

record 'm HousingServe =
  n_estimators :: int
  learning_rate :: real
  model_file :: string
  model :: "'m option"

text \<open>
  Python's \<^verbatim>\<open>not model_file\<close> for an argument that is \<^verbatim>\<open>None\<close> or a
  \<^verbatim>\<open>str\<close>: \<^verbatim>\<open>None\<close> and the empty string are falsy.
\<close>

definition str_falsy :: "string option \<Rightarrow> bool" where
  "str_falsy a = (case a of None \<Rightarrow> True | Some s \<Rightarrow> s = [])"

text \<open>
  \<^verbatim>\<open>__init__(self, model_file=None)\<close>. It cannot raise; it prints, reads the
  environment and returns the new object.
\<close>

definition HousingServe_init ::
  "string option \<Rightarrow> ('m, 'p) world \<Rightarrow> 'm HousingServe \<times> ('m, 'p) world" where
  "HousingServe_init arg w =
     (let (mf, w1) =
        (if str_falsy arg then
           (case environ w ''MODEL_FILE'' of
              Some v \<Rightarrow>
                (v, w\<lparr>trace := trace w @
                   [Print [PStr ''model_file not supplied; checking environment variable'']]\<rparr>)
            | None \<Rightarrow>
                (''mockup-model.dat'', w\<lparr>trace := trace w @
                   [Print [PStr ''model_file not supplied; using the default'']]\<rparr>))
         else (the arg, w))
      in (\<lparr>n_estimators = 50, learning_rate = 0.1, model_file = mf, model = None\<rparr>,
          w1\<lparr>trace := trace w1 @ [Print [PStr (''model_file='' @ mf)]]\<rparr>))"

section \<open>The helper functions of the notebook\<close>

text \<open>
  \<^verbatim>\<open>read_synthetic_input(test_size=0.25)\<close>: \<^verbatim>\<open>make_regression\<close> draws from
  the global random state, the split is asked for with \<^verbatim>\<open>shuffle=False\<close>, a
  \<^verbatim>\<open>SimpleImputer()\<close> is built (which cannot fail), fitted on the training rows and
  applied to the test rows.
\<close>

definition read_synthetic_input ::
  "('m, 'p) libs \<Rightarrow> real \<Rightarrow> ((matrix \<times> vec) \<times> (matrix \<times> vec), ('m, 'p) world) prog" where
  "read_synthetic_input L test_size =
     bindE (emit (MakeRegression 200 5 0.1)) (\<lambda>_.
     bindE (\<lambda>w. case make_regression L 200 5 0.1 (rng w) of (r, g) \<Rightarrow> (r, w\<lparr>rng := g\<rparr>))
       (\<lambda>(X, y).
     bindE (call (TrainTestSplit X y test_size False) (train_test_split L X y test_size False))
       (\<lambda>(train_X, test_X, train_y, test_y).
     bindE (emit NewSimpleImputer) (\<lambda>_.
     bindE (call (ImputerFitTransform train_X) (imputer_fit_transform L train_X))
       (\<lambda>train_X'.
     bindE (call (ImputerTransform test_X) (imputer_transform L train_X test_X))
       (\<lambda>test_X'.
     returnE ((train_X', train_y), (test_X', test_y))))))))"

text \<open>
  \<^verbatim>\<open>train_model\<close>. \<^verbatim>\<open>fit\<close> changes the model object in place; the model
  returned is the object after the fit. \<^verbatim>\<open>print\<close> gets the format string and the
  two numbers as three arguments.
\<close>

definition train_model ::
  "('m, 'p) libs \<Rightarrow> matrix \<Rightarrow> vec \<Rightarrow> matrix \<Rightarrow> vec \<Rightarrow> int \<Rightarrow> real \<Rightarrow> ('m, ('m, 'p) world) prog" where
  "train_model L train_X train_y test_X test_y n_est rate =
     bindE (call (NewXGBRegressor n_est rate) (XGBRegressor L n_est rate)) (\<lambda>m0.
     bindE (call (Fit m0 train_X train_y 40 [(test_X, test_y)])
              (model_fit L m0 train_X train_y 40 [(test_X, test_y)])) (\<lambda>m.
     bindE (liftE (best_score L m)) (\<lambda>bs.
     bindE (liftE (best_iteration L m)) (\<lambda>bi.
     bindE (emit (Print [PStr ''Best RMSE on eval: %.2f with %d rounds'', PFloat bs, PInt (bi + 1)]))
       (\<lambda>_.
     returnE m)))))"

definition eval_model ::
  "('m, 'p) libs \<Rightarrow> 'm \<Rightarrow> matrix \<Rightarrow> vec \<Rightarrow> (unit, ('m, 'p) world) prog" where
  "eval_model L m test_X test_y =
     bindE (call (ModelPredict m test_X) (model_predict L m test_X)) (\<lambda>predictions.
     bindE (call (MeanAbsoluteError predictions test_y)
              (mean_absolute_error L predictions test_y)) (\<lambda>mae.
     emit (LogInfo ''mean_absolute_error=%.2f'' [PFloat mae])))"

definition save_model ::
  "('m, 'p) libs \<Rightarrow> 'm \<Rightarrow> path \<Rightarrow> (unit, ('m, 'p) world) prog" where
  "save_model L m mf =
     bindE (emit (JoblibDump m mf)) (\<lambda>_.
     bindE (\<lambda>w. case joblib_dump L m mf (files w) of (r, fs) \<Rightarrow> (r, w\<lparr>files := fs\<rparr>)) (\<lambda>_.
     emit (LogInfo ''Model export success: %s'' [PStr mf])))"

section \<open>The methods of HousingServe\<close>

text \<open>\<^verbatim>\<open>train(self)\<close> assigns nothing to \<^verbatim>\<open>self\<close>: its state is the world alone.\<close>

definition train :: "('m, 'p) libs \<Rightarrow> 'm HousingServe \<Rightarrow> (unit, ('m, 'p) world) prog" where
  "train L self =
     bindE (read_synthetic_input L 0.25) (\<lambda>((train_X, train_y), (test_X, test_y)).
     bindE (train_model L train_X train_y test_X test_y (n_estimators self) (learning_rate self))
       (\<lambda>m.
     bindE (eval_model L m test_X test_y) (\<lambda>_.
     save_model L m (model_file self))))"

text \<open>
  Python's \<^verbatim>\<open>not self.model\<close>: true for \<^verbatim>\<open>None\<close> and for an object whose truth
  value is false.
\<close>

definition not_model :: "('m, 'p) libs \<Rightarrow> 'm option \<Rightarrow> bool" where
  "not_model L mo = (case mo of None \<Rightarrow> True | Some m \<Rightarrow> \<not> truthy L m)"

text \<open>
  numpy's \<^verbatim>\<open>ndarray.item(i)\<close> on the flat array: a negative index counts from the
  end, an index out of range raises.
\<close>

definition item :: "vec \<Rightarrow> int \<Rightarrow> exn + real" where
  "item p i =
     (let n = int (length p); j = (if i < 0 then n + i else i)
      in if 0 \<le> j \<and> j < n then Inr (p ! nat j) else Inl IndexError)"

definition on_world :: "('a, 'w) prog \<Rightarrow> ('a, 's \<times> 'w) prog" where
  "on_world c = (\<lambda>(self, w). case c w of (r, w') \<Rightarrow> (r, (self, w')))"

text \<open>
  \<^verbatim>\<open>predict(self, X, feature_names)\<close> assigns \<^verbatim>\<open>self.model\<close>, so its state is the
  object and the world. The object returned by \<^verbatim>\<open>joblib.load\<close> is stored before
  \<^verbatim>\<open>predict\<close> is called on it, and stays stored when that call raises.
\<close>

definition predict ::
  "('m, 'p) libs \<Rightarrow> matrix \<Rightarrow> string list option \<Rightarrow>
     (real list list, 'm HousingServe \<times> ('m, 'p) world) prog" where
  "predict L X feature_names =
     bindE (\<lambda>(self, w).
        if not_model L (model self) then
          (case call (JoblibLoad (model_file self))
                  (joblib_load L (files w) (model_file self)) w of
             (Inl e, w') \<Rightarrow> (Inl e, (self, w'))
           | (Inr obj, w') \<Rightarrow> (Inr (), (self\<lparr>model := obj\<rparr>, w')))
        else (Inr (), (self, w))) (\<lambda>_.
     bindE (\<lambda>(self, w).
        case model self of
          None \<Rightarrow> (Inl AttributeError, (self, w))
        | Some m \<Rightarrow> on_world (call (ModelPredict m X) (model_predict L m X)) (self, w))
       (\<lambda>prediction.
     bindE (liftE (item prediction 0)) (\<lambda>a.
     bindE (liftE (item prediction 0)) (\<lambda>b.
     returnE [[a, b]]))))"

text \<open>The events a statement adds to the trace, and their kinds.\<close>

definition new_events :: "('m, 'p) world \<Rightarrow> ('m, 'p) world \<Rightarrow> 'm event list" where
  "new_events w w' = drop (length (trace w)) (trace w')"

datatype kind =
    KPrint | KLogInfo | KMakeRegression | KTrainTestSplit | KNewSimpleImputer
  | KImputerFitTransform | KImputerTransform | KNewXGBRegressor | KFit | KModelPredict
  | KMeanAbsoluteError | KJoblibDump | KJoblibLoad

fun kind_of :: "'m event \<Rightarrow> kind" where
  "kind_of (Print _) = KPrint"
| "kind_of (LogInfo _ _) = KLogInfo"
| "kind_of (MakeRegression _ _ _) = KMakeRegression"
| "kind_of (TrainTestSplit _ _ _ _) = KTrainTestSplit"
| "kind_of NewSimpleImputer = KNewSimpleImputer"
| "kind_of (ImputerFitTransform _) = KImputerFitTransform"
| "kind_of (ImputerTransform _) = KImputerTransform"
| "kind_of (NewXGBRegressor _ _) = KNewXGBRegressor"
| "kind_of (Fit _ _ _ _ _) = KFit"
| "kind_of (ModelPredict _ _) = KModelPredict"
| "kind_of (MeanAbsoluteError _ _) = KMeanAbsoluteError"
| "kind_of (JoblibDump _ _) = KJoblibDump"
| "kind_of (JoblibLoad _) = KJoblibLoad"

section \<open>The one-step pipeline\<close>

text \<open>
  The notebook's last cells define \<^verbatim>\<open>train_pipeline\<close> with the Kubeflow Pipelines
  DSL and compile it. Of the DSL the model keeps what the cell uses: the constructor
  \<^verbatim>\<open>dsl.ContainerOp\<close> registers the new op with the pipeline under construction (here
  the list of ops so far), \<^verbatim>\<open>apply(gcp.use_gcp_secret(name))\<close> changes the op it is
  applied to and returns it, and an op depends on the ops named in its \<open>op_after\<close>.
  The op is registered by reference, so the pipeline holds it with the changes made after
  its construction.
\<close>

record container_op =
  op_name :: string
  op_image :: string
  op_command :: "string list"
  op_working_dir :: "string option"
  op_secrets :: "string list"
  op_after :: "string list"

definition ContainerOp :: "string \<Rightarrow> string \<Rightarrow> string list \<Rightarrow> container_op" where
  "ContainerOp nm img command =
     \<lparr>op_name = nm, op_image = img, op_command = command, op_working_dir = None,
      op_secrets = [], op_after = []\<rparr>"

definition use_gcp_secret :: "string \<Rightarrow> container_op \<Rightarrow> container_op" where
  "use_gcp_secret secret_name task = task\<lparr>op_secrets := op_secrets task @ [secret_name]\<rparr>"

text \<open>
  \<^verbatim>\<open>train_pipeline()\<close>, with the two globals it reads as parameters:
  \<^verbatim>\<open>preprocessor.executable.name\<close> and \<^verbatim>\<open>builder.image_tag\<close>.
\<close>

definition train_pipeline :: "string \<Rightarrow> string \<Rightarrow> container_op list \<Rightarrow> container_op list" where
  "train_pipeline executable_name image_tag ops =
     (let command = [''python'', executable_name, ''train''];
          train_op = use_gcp_secret ''user-gcp-sa'' (ContainerOp ''train'' image_tag command);
          train_op = train_op\<lparr>op_working_dir := Some ''/app''\<rparr>
      in ops @ [train_op])"

text \<open>
  \<^verbatim>\<open>compiler.Compiler().compile(pipeline_func, ...)\<close> runs the pipeline function on an
  empty pipeline; the graph is the ops it registered and an edge to each op from every op
  it names in \<open>op_after\<close>.
\<close>

definition compile_pipeline ::
  "(container_op list \<Rightarrow> container_op list) \<Rightarrow> container_op list \<times> (string \<times> string) list" where
  "compile_pipeline pipeline_func =
     (let ops = pipeline_func []
      in (ops, concat (map (\<lambda>t. map (\<lambda>d. (d, op_name t)) (op_after t)) ops)))"

section \<open>The Prow configuration\<close>

text \<open>
  \<^verbatim>\<open>prow_config.yaml\<close>, entry by entry. A key that an entry does not have is an
  empty list.
\<close>

record workflow =
  app_dir :: string
  component :: string
  name :: string
  job_types :: "string list"
  include_dirs :: "string list"

definition unittests :: workflow where
  "unittests = \<lparr>app_dir = ''kubeflow/examples/test/workflows'', component = ''workflows'',
     name = ''unittests'', job_types = [''presubmit'', ''postsubmit'', ''periodic''],
     include_dirs = []\<rparr>"

definition code_search :: workflow where
  "code_search = \<lparr>app_dir = ''kubeflow/examples/test/workflows'', component = ''code_search'',
     name = ''code-search'', job_types = [''presubmit'', ''postsubmit''],
     include_dirs = [''code_search/*'']\<rparr>"

definition mnist :: workflow where
  "mnist = \<lparr>app_dir = ''kubeflow/examples/test/workflows'', component = ''mnist'',
     name = ''mnist'', job_types = [''periodic'', ''presubmit'', ''postsubmit''],
     include_dirs = [''mnist/*'']\<rparr>"

definition gis :: workflow where
  "gis = \<lparr>app_dir = ''kubeflow/examples/test/workflows'', component = ''gis'',
     name = ''gis'', job_types = [''periodic'', ''presubmit'', ''postsubmit''],
     include_dirs = [''github_issue_summarization/*'']\<rparr>"

definition xgboost :: workflow where
  "xgboost = \<lparr>app_dir = ''kubeflow/examples/test/workflows'',
     component = ''xgboost_ames_housing'',
     name = ''xgboost'', job_types = [''presubmit'', ''postsubmit''],
     include_dirs = [''xgboost_ames_housing/*'']\<rparr>"

definition pytorch_mnist :: workflow where
  "pytorch_mnist = \<lparr>app_dir = ''kubeflow/examples/test/workflows'',
     component = ''pytorch_mnist'',
     name = ''pytorch-mnist'', job_types = [''periodic'', ''presubmit'', ''postsubmit''],
     include_dirs = [''pytorch_mnist/*'']\<rparr>"

definition workflows :: "workflow list" where
  "workflows = [unittests, code_search, mnist, gis, xgboost, pytorch_mnist]"

text \<open>
  Modelled from the spec: the matching of an \<open>include_dirs\<close> pattern against the path of
  a changed file. It happens in the Prow runner, which is not in this repository (the
  file's header names \<^verbatim>\<open>kubeflow/testing/py/run_e2e_workflow.py\<close>). The patterns are
  shell patterns matched against the whole path; \<open>fnmatch\<close> covers \<^verbatim>\<open>*\<close> (any run
  of characters, \<^verbatim>\<open>/\<close> included), \<^verbatim>\<open>?\<close> (one character) and literal
  characters, which is all the file's patterns use.
\<close>

fun fnmatch :: "string \<Rightarrow> string \<Rightarrow> bool" where
  "fnmatch [] [] = True"
| "fnmatch (c # cs) [] = False"
| "fnmatch [] (p # ps) = (p = CHR ''*'' \<and> fnmatch [] ps)"
| "fnmatch (c # cs) (p # ps) =
     (if p = CHR ''*'' then fnmatch (c # cs) ps \<or> fnmatch cs (p # ps)
      else (p = CHR ''?'' \<or> p = c) \<and> fnmatch cs ps)"

text \<open>
  Modelled from the spec: the runner's decision which workflows to start, also not in this
  repository. The spec calls the file the configuration "describing which example
  directories trigger which test jobs": a workflow is scoped to the job types it lists, and
  one with \<open>include_dirs\<close> is started by a presubmit or postsubmit only when a changed
  file matches one of its patterns.
\<close>

definition dir_modified :: "workflow \<Rightarrow> string list \<Rightarrow> bool" where
  "dir_modified w changed_files =
     list_ex (\<lambda>f. list_ex (\<lambda>d. fnmatch f d) (include_dirs w)) changed_files"

definition should_run :: "string \<Rightarrow> string list \<Rightarrow> workflow \<Rightarrow> bool" where
  "should_run job_type changed_files w =
     (if job_types w \<noteq> [] \<and> job_type \<notin> set (job_types w) then False
      else if job_type \<noteq> ''periodic'' \<and> include_dirs w \<noteq> [] \<and> \<not> dir_modified w changed_files
        then False
      else True)"

definition triggered :: "string \<Rightarrow> string list \<Rightarrow> string list" where
  "triggered job_type changed_files =
     map name (filter (should_run job_type changed_files) workflows)"

text \<open>A change confined to a directory: at least one file, every file below it.\<close>

definition confined_to :: "string \<Rightarrow> string list \<Rightarrow> bool" where
  "confined_to dir changed_files =
     (changed_files \<noteq> [] \<and> list_all (\<lambda>f. prefix (dir @ ''/'') f) changed_files)"

text \<open>Each E2E workflow with the directory of its example.\<close>

definition e2e_examples :: "(workflow \<times> string) list" where
  "e2e_examples =
     [(code_search, ''code_search''), (mnist, ''mnist''),
      (gis, ''github_issue_summarization''), (xgboost, ''xgboost_ames_housing''),
      (pytorch_mnist, ''pytorch_mnist'')]"

section \<open>What the libraries document\<close>



section \<open>A small library to run the code on\<close>

text \<open>
  One instance of the libraries, used to run the definitions on concrete inputs. A model
  is the number of its boosting rounds and counts as false when it has none (as an
  ensemble whose \<^verbatim>\<open>__len__\<close> is its number of estimators does); a file holds a
  pickled object, which may be \<^verbatim>\<open>None\<close>.
\<close>

definition demo_split :: "matrix \<Rightarrow> vec \<Rightarrow> real \<Rightarrow> bool \<Rightarrow> exn + matrix \<times> matrix \<times> vec \<times> vec" where
  "demo_split X y test_size shuffle =
     (if test_size \<le> 0 \<or> 1 \<le> test_size then Inl (LibraryError ''ValueError'')
      else (let k = length X - nat \<lceil>test_size * real (length X)\<rceil>
            in Inr (take k X, drop k X, take k y, drop k y)))"

definition demo_libs :: "(nat, nat option) libs" where
  "demo_libs = \<lparr>
     make_regression = (\<lambda>n f noise g.
        (Inr (replicate (nat n) (replicate (nat f) 0), replicate (nat n) 0), Suc g)),
     train_test_split = demo_split,
     imputer_fit_transform = (\<lambda>X. Inr X),
     imputer_transform = (\<lambda>D X. Inr X),
     XGBRegressor = (\<lambda>n rate. Inr (nat n)),
     model_fit = (\<lambda>m X y rounds evals. Inr m),
     best_score = (\<lambda>m. Inr 0),
     best_iteration = (\<lambda>m. Inr (int m - 1)),
     model_predict = (\<lambda>m X. Inr (map (\<lambda>r. real m + sum_list r) X)),
     mean_absolute_error = (\<lambda>p y. Inr 0),
     joblib_dump = (\<lambda>m f fs. (Inr (), fs(f \<mapsto> Some m))),
     joblib_load = (\<lambda>fs f. case fs f of
        None \<Rightarrow> Inl (LibraryError ''FileNotFoundError'') | Some obj \<Rightarrow> Inr obj),
     truthy = (\<lambda>m. m \<noteq> 0)\<rparr>"


definition demo_world :: "(nat, nat option) world" where
  "demo_world = \<lparr>files = [''mockup-model.dat'' \<mapsto> Some 50, ''none.dat'' \<mapsto> None,
                          ''empty.dat'' \<mapsto> Some 0],
                 environ = Map.empty, rng = 0, trace = []\<rparr>"

definition env_world :: "(nat, nat option) world" where
  "env_world = demo_world\<lparr>environ := [''MODEL_FILE'' \<mapsto> ''served.dat'']\<rparr>"

section \<open>Callers and observations\<close>


definition of_kind :: "kind \<Rightarrow> 'm event list \<Rightarrow> 'm event list" where
  "of_kind k evs = filter (\<lambda>e. kind_of e = k) evs"

text \<open>The kinds of the events of the four steps of \<^verbatim>\<open>train\<close>, in the order of the source.\<close>

definition read_kinds :: "kind list" where
  "read_kinds =
     [KMakeRegression, KTrainTestSplit, KNewSimpleImputer, KImputerFitTransform,
      KImputerTransform]"

definition train_model_kinds :: "kind list" where
  "train_model_kinds = [KNewXGBRegressor, KFit, KPrint]"

definition eval_kinds :: "kind list" where
  "eval_kinds = [KModelPredict, KMeanAbsoluteError, KLogInfo]"

definition save_kinds :: "kind list" where
  "save_kinds = [KJoblibDump, KLogInfo]"

section \<open>The functions, outcome by outcome\<close>

text \<open>
  Each function as the case distinction over the outcomes of its library calls: which
  exception or value it returns and which state it leaves. These are the definitions with
  the sequencing unfolded.
\<close>

lemmas prog_defs = bindE_def returnE_def liftE_def emit_def call_def on_world_def

lemma read_synthetic_input_cases:
  "read_synthetic_input L t w =
     (case make_regression L 200 5 0.1 (rng w) of
        (Inl e, g) \<Rightarrow> (Inl e, w\<lparr>rng := g, trace := trace w @ [MakeRegression 200 5 0.1]\<rparr>)
      | (Inr (X, y), g) \<Rightarrow>
     (case train_test_split L X y t False of
        Inl e \<Rightarrow> (Inl e, w\<lparr>rng := g, trace := trace w @ [MakeRegression 200 5 0.1,
                     TrainTestSplit X y t False]\<rparr>)
      | Inr (train_X, test_X, train_y, test_y) \<Rightarrow>
     (case imputer_fit_transform L train_X of
        Inl e \<Rightarrow> (Inl e, w\<lparr>rng := g, trace := trace w @ [MakeRegression 200 5 0.1,
                     TrainTestSplit X y t False, NewSimpleImputer, ImputerFitTransform train_X]\<rparr>)
      | Inr train_X' \<Rightarrow>
     (case imputer_transform L train_X test_X of
        Inl e \<Rightarrow> (Inl e, w\<lparr>rng := g, trace := trace w @ [MakeRegression 200 5 0.1,
                     TrainTestSplit X y t False, NewSimpleImputer, ImputerFitTransform train_X,
                     ImputerTransform test_X]\<rparr>)
      | Inr test_X' \<Rightarrow>
          (Inr ((train_X', train_y), (test_X', test_y)),
           w\<lparr>rng := g, trace := trace w @ [MakeRegression 200 5 0.1,
                     TrainTestSplit X y t False, NewSimpleImputer, ImputerFitTransform train_X,
                     ImputerTransform test_X]\<rparr>)))))"
  by (simp add: read_synthetic_input_def prog_defs split: sum.split prod.split)

lemma train_model_cases:
  "train_model L train_X train_y test_X test_y n_est rate w =
     (case XGBRegressor L n_est rate of
        Inl e \<Rightarrow> (Inl e, w\<lparr>trace := trace w @ [NewXGBRegressor n_est rate]\<rparr>)
      | Inr m0 \<Rightarrow>
     (case model_fit L m0 train_X train_y 40 [(test_X, test_y)] of
        Inl e \<Rightarrow> (Inl e, w\<lparr>trace := trace w @ [NewXGBRegressor n_est rate,
                     Fit m0 train_X train_y 40 [(test_X, test_y)]]\<rparr>)
      | Inr m \<Rightarrow>
     (case best_score L m of
        Inl e \<Rightarrow> (Inl e, w\<lparr>trace := trace w @ [NewXGBRegressor n_est rate,
                     Fit m0 train_X train_y 40 [(test_X, test_y)]]\<rparr>)
      | Inr bs \<Rightarrow>
     (case best_iteration L m of
        Inl e \<Rightarrow> (Inl e, w\<lparr>trace := trace w @ [NewXGBRegressor n_est rate,
                     Fit m0 train_X train_y 40 [(test_X, test_y)]]\<rparr>)
      | Inr bi \<Rightarrow>
          (Inr m, w\<lparr>trace := trace w @ [NewXGBRegressor n_est rate,
                     Fit m0 train_X train_y 40 [(test_X, test_y)],
                     Print [PStr ''Best RMSE on eval: %.2f with %d rounds'', PFloat bs,
                            PInt (bi + 1)]]\<rparr>)))))"
  by (simp add: train_model_def prog_defs split: sum.split)

lemma eval_model_cases:
  "eval_model L m test_X test_y w =
     (case model_predict L m test_X of
        Inl e \<Rightarrow> (Inl e, w\<lparr>trace := trace w @ [ModelPredict m test_X]\<rparr>)
      | Inr p \<Rightarrow>
     (case mean_absolute_error L p test_y of
        Inl e \<Rightarrow> (Inl e, w\<lparr>trace := trace w @ [ModelPredict m test_X,
                     MeanAbsoluteError p test_y]\<rparr>)
      | Inr mae \<Rightarrow>
          (Inr (), w\<lparr>trace := trace w @ [ModelPredict m test_X, MeanAbsoluteError p test_y,
                     LogInfo ''mean_absolute_error=%.2f'' [PFloat mae]]\<rparr>)))"
  by (simp add: eval_model_def prog_defs split: sum.split)

lemma save_model_cases:
  "save_model L m mf w =
     (case joblib_dump L m mf (files w) of
        (Inl e, fs) \<Rightarrow> (Inl e, w\<lparr>files := fs, trace := trace w @ [JoblibDump m mf]\<rparr>)
      | (Inr u, fs) \<Rightarrow>
          (Inr (), w\<lparr>files := fs, trace := trace w @ [JoblibDump m mf,
                     LogInfo ''Model export success: %s'' [PStr mf]]\<rparr>))"
  by (simp add: save_model_def prog_defs split: sum.split prod.split)

lemma train_cases:
  "train L self w =
     (case read_synthetic_input L 0.25 w of
        (Inl e, w1) \<Rightarrow> (Inl e, w1)
      | (Inr ((train_X, train_y), (test_X, test_y)), w1) \<Rightarrow>
     (case train_model L train_X train_y test_X test_y (n_estimators self) (learning_rate self) w1 of
        (Inl e, w2) \<Rightarrow> (Inl e, w2)
      | (Inr m, w2) \<Rightarrow>
     (case eval_model L m test_X test_y w2 of
        (Inl e, w3) \<Rightarrow> (Inl e, w3)
      | (Inr u, w3) \<Rightarrow> save_model L m (model_file self) w3)))"
  by (simp add: train_def bindE_def split: sum.split prod.split)

lemmas stage_cases =
  read_synthetic_input_cases train_model_cases eval_model_cases save_model_cases



subsection \<open>What a returning call has done\<close>

lemma read_synthetic_input_success:
  assumes "read_synthetic_input L t w = (Inr r, w1)"
  shows "\<exists>X y g train_X test_X train_y test_y train_X' test_X'.
           make_regression L 200 5 0.1 (rng w) = (Inr (X, y), g)
         \<and> train_test_split L X y t False = Inr (train_X, test_X, train_y, test_y)
         \<and> imputer_fit_transform L train_X = Inr train_X'
         \<and> imputer_transform L train_X test_X = Inr test_X'
         \<and> r = ((train_X', train_y), (test_X', test_y))
         \<and> w1 = w\<lparr>rng := g, trace := trace w @ [MakeRegression 200 5 0.1,
                     TrainTestSplit X y t False, NewSimpleImputer, ImputerFitTransform train_X,
                     ImputerTransform test_X]\<rparr>"
  using assms unfolding read_synthetic_input_cases
  by (simp split: sum.splits prod.splits)

lemma train_model_success:
  assumes "train_model L train_X train_y test_X test_y n_est rate w = (Inr m, w1)"
  shows "\<exists>m0 bs bi.
           XGBRegressor L n_est rate = Inr m0
         \<and> model_fit L m0 train_X train_y 40 [(test_X, test_y)] = Inr m
         \<and> best_score L m = Inr bs \<and> best_iteration L m = Inr bi
         \<and> w1 = w\<lparr>trace := trace w @ [NewXGBRegressor n_est rate,
                     Fit m0 train_X train_y 40 [(test_X, test_y)],
                     Print [PStr ''Best RMSE on eval: %.2f with %d rounds'', PFloat bs,
                            PInt (bi + 1)]]\<rparr>"
  using assms unfolding train_model_cases
  by (simp split: sum.splits)

lemma eval_model_success:
  assumes "eval_model L m test_X test_y w = (Inr u, w1)"
  shows "\<exists>p mae.
           model_predict L m test_X = Inr p \<and> mean_absolute_error L p test_y = Inr mae
         \<and> w1 = w\<lparr>trace := trace w @ [ModelPredict m test_X, MeanAbsoluteError p test_y,
                     LogInfo ''mean_absolute_error=%.2f'' [PFloat mae]]\<rparr>"
  using assms unfolding eval_model_cases
  by (simp split: sum.splits)

lemma save_model_success:
  assumes "save_model L m mf w = (Inr u, w1)"
  shows "\<exists>fs. joblib_dump L m mf (files w) = (Inr (), fs)
         \<and> w1 = w\<lparr>files := fs, trace := trace w @ [JoblibDump m mf,
                     LogInfo ''Model export success: %s'' [PStr mf]]\<rparr>"
  using assms unfolding save_model_cases
  by (simp split: sum.splits prod.splits)

subsection \<open>Events and files, whatever the outcome\<close>

lemma new_events_append: "trace w' = trace w @ evs \<Longrightarrow> new_events w w' = evs"
  by (simp add: new_events_def)

lemmas kinds_defs = read_kinds_def train_model_kinds_def eval_kinds_def save_kinds_def

lemma read_synthetic_input_trace:
  "\<exists>evs. trace (snd (read_synthetic_input L t w)) = trace w @ evs
        \<and> prefix (map kind_of evs) read_kinds
        \<and> ((\<exists>v. fst (read_synthetic_input L t w) = Inr v) \<longrightarrow> map kind_of evs = read_kinds)"
  by (simp add: read_synthetic_input_cases read_kinds_def split: sum.split prod.split)

lemma train_model_trace:
  "\<exists>evs. trace (snd (train_model L a b c d n r w)) = trace w @ evs
        \<and> prefix (map kind_of evs) train_model_kinds
        \<and> ((\<exists>v. fst (train_model L a b c d n r w) = Inr v) \<longrightarrow>
             map kind_of evs = train_model_kinds)"
  by (simp add: train_model_cases train_model_kinds_def split: sum.split prod.split)

lemma eval_model_trace:
  "\<exists>evs. trace (snd (eval_model L m X y w)) = trace w @ evs
        \<and> prefix (map kind_of evs) eval_kinds
        \<and> ((\<exists>v. fst (eval_model L m X y w) = Inr v) \<longrightarrow> map kind_of evs = eval_kinds)"
  by (simp add: eval_model_cases eval_kinds_def split: sum.split prod.split)

lemma save_model_trace:
  "\<exists>evs. trace (snd (save_model L m mf w)) = trace w @ evs
        \<and> prefix (map kind_of evs) save_kinds
        \<and> ((\<exists>v. fst (save_model L m mf w) = Inr v) = (map kind_of evs = save_kinds))
        \<and> of_kind KJoblibDump evs = [JoblibDump m mf]"
  by (simp add: save_model_cases save_kinds_def of_kind_def split: sum.split prod.split)



lemma prefix_not_longer: "prefix k K \<Longrightarrow> R \<noteq> [] \<Longrightarrow> k \<noteq> K @ R"
  by (auto dest: prefix_length_le)

lemma train_trace:
  "\<exists>evs. trace (snd (train L self w)) = trace w @ evs
        \<and> prefix (map kind_of evs) (read_kinds @ train_model_kinds @ eval_kinds @ save_kinds)
        \<and> ((fst (train L self w) = Inr ()) =
             (map kind_of evs = read_kinds @ train_model_kinds @ eval_kinds @ save_kinds))"
proof -
  have ne: "save_kinds \<noteq> []" "eval_kinds @ save_kinds \<noteq> []"
    "train_model_kinds @ eval_kinds @ save_kinds \<noteq> []"
    by (simp_all add: kinds_defs)
  obtain r1 w1 where s1: "read_synthetic_input L 0.25 w = (r1, w1)"
    by (cases "read_synthetic_input L 0.25 w")
  from read_synthetic_input_trace [of L "0.25" w] s1 obtain e1 where
    e1: "trace w1 = trace w @ e1" "prefix (map kind_of e1) read_kinds"
        "(\<exists>v. r1 = Inr v) \<longrightarrow> map kind_of e1 = read_kinds"
    by auto
  show ?thesis
  proof (cases r1)
    case (Inl e)
    then have t: "train L self w = (Inl e, w1)"
      using s1 by (simp add: train_cases)
    show ?thesis
      using e1 prefix_not_longer [OF e1(2) ne(3)] by (auto simp: t)
  next
    case (Inr v)
    obtain train_X train_y test_X test_y where v: "v = ((train_X, train_y), (test_X, test_y))"
      by (cases v) auto
    have k1: "map kind_of e1 = read_kinds"
      using e1(3) Inr by blast
    obtain r2 w2 where s2: "train_model L train_X train_y test_X test_y (n_estimators self)
        (learning_rate self) w1 = (r2, w2)"
      by (cases "train_model L train_X train_y test_X test_y (n_estimators self)
        (learning_rate self) w1")
    from train_model_trace [of L train_X train_y test_X test_y "n_estimators self"
        "learning_rate self" w1] s2 obtain e2 where
      e2: "trace w2 = trace w1 @ e2" "prefix (map kind_of e2) train_model_kinds"
          "(\<exists>v. r2 = Inr v) \<longrightarrow> map kind_of e2 = train_model_kinds"
      by auto
    show ?thesis
    proof (cases r2)
      case (Inl e)
      then have t: "train L self w = (Inl e, w2)"
        using s1 s2 Inr v by (simp add: train_cases)
      show ?thesis
        using e1(1) e2 k1 prefix_not_longer [OF e2(2) ne(2)] by (auto simp: t)
    next
      case (Inr m)
      note r2 = Inr
      have k2: "map kind_of e2 = train_model_kinds"
        using e2(3) Inr by blast
      obtain r3 w3 where s3: "eval_model L m test_X test_y w2 = (r3, w3)"
        by (cases "eval_model L m test_X test_y w2")
      from eval_model_trace [of L m test_X test_y w2] s3 obtain e3 where
        e3: "trace w3 = trace w2 @ e3" "prefix (map kind_of e3) eval_kinds"
            "(\<exists>v. r3 = Inr v) \<longrightarrow> map kind_of e3 = eval_kinds"
        by auto
      show ?thesis
      proof (cases r3)
        case (Inl e)
        then have t: "train L self w = (Inl e, w3)"
          using s1 s2 s3 \<open>r1 = Inr v\<close> v r2 by (simp add: train_cases)
        show ?thesis
          using e1(1) e2(1) e3 k1 k2 prefix_not_longer [OF e3(2) ne(1)] by (auto simp: t)
      next
        case (Inr u)
        have k3: "map kind_of e3 = eval_kinds"
          using e3(3) Inr by blast
        have t: "train L self w = save_model L m (model_file self) w3"
          using s1 s2 s3 \<open>r1 = Inr v\<close> v r2 Inr by (simp add: train_cases)
        from save_model_trace [of L m "model_file self" w3] obtain e4 where
          e4: "trace (snd (save_model L m (model_file self) w3)) = trace w3 @ e4"
              "prefix (map kind_of e4) save_kinds"
              "(\<exists>v. fst (save_model L m (model_file self) w3) = Inr v) =
                 (map kind_of e4 = save_kinds)"
          by auto
        show ?thesis
          using e1(1) e2(1) e3(1) e4 k1 k2 k3 by (auto simp: t)
      qed
    qed
  qed
qed

lemma train_success:
  assumes ok: "fst (train L self w) = Inr ()"
  shows "\<exists>X y g train_X test_X train_y test_y train_X' test_X' m0 m bs bi p mae fs.
           make_regression L 200 5 0.1 (rng w) = (Inr (X, y), g)
         \<and> train_test_split L X y 0.25 False = Inr (train_X, test_X, train_y, test_y)
         \<and> imputer_fit_transform L train_X = Inr train_X'
         \<and> imputer_transform L train_X test_X = Inr test_X'
         \<and> XGBRegressor L (n_estimators self) (learning_rate self) = Inr m0
         \<and> model_fit L m0 train_X' train_y 40 [(test_X', test_y)] = Inr m
         \<and> best_score L m = Inr bs \<and> best_iteration L m = Inr bi
         \<and> model_predict L m test_X' = Inr p
         \<and> mean_absolute_error L p test_y = Inr mae
         \<and> joblib_dump L m (model_file self) (files w) = (Inr (), fs)
         \<and> snd (train L self w) = w\<lparr>files := fs, rng := g, trace := trace w @
              [MakeRegression 200 5 0.1,
               TrainTestSplit X y 0.25 False,
               NewSimpleImputer, ImputerFitTransform train_X,
               ImputerTransform test_X,
               NewXGBRegressor (n_estimators self) (learning_rate self),
               Fit m0 train_X' train_y 40 [(test_X', test_y)],
               Print [PStr ''Best RMSE on eval: %.2f with %d rounds'', PFloat bs, PInt (bi + 1)],
               ModelPredict m test_X',
               MeanAbsoluteError p test_y,
               LogInfo ''mean_absolute_error=%.2f'' [PFloat mae],
               JoblibDump m (model_file self),
               LogInfo ''Model export success: %s'' [PStr (model_file self)]]\<rparr>"
proof -
  obtain r1 w1 where s1: "read_synthetic_input L 0.25 w = (r1, w1)"
    by (cases "read_synthetic_input L 0.25 w")
  obtain train_X' train_y test_X' test_y where
    r1: "r1 = Inr ((train_X', train_y), (test_X', test_y))"
    using ok s1 by (cases r1) (auto simp: train_cases)
  obtain r2 w2 where s2: "train_model L train_X' train_y test_X' test_y (n_estimators self)
      (learning_rate self) w1 = (r2, w2)"
    by (cases "train_model L train_X' train_y test_X' test_y (n_estimators self)
      (learning_rate self) w1")
  obtain m where r2: "r2 = Inr m"
    using ok s1 r1 s2 by (cases r2) (auto simp: train_cases)
  obtain r3 w3 where s3: "eval_model L m test_X' test_y w2 = (r3, w3)"
    by (cases "eval_model L m test_X' test_y w2")
  obtain u where r3: "r3 = Inr u"
    using ok s1 r1 s2 r2 s3 by (cases r3) (auto simp: train_cases)
  have t: "train L self w = save_model L m (model_file self) w3"
    using s1 r1 s2 r2 s3 r3 by (simp add: train_cases)
  obtain w4 where s4: "save_model L m (model_file self) w3 = (Inr (), w4)"
    using ok t by (cases "save_model L m (model_file self) w3") auto
  from read_synthetic_input_success [OF s1 [unfolded r1]]
  obtain X y g train_X test_X where
    a: "make_regression L 200 5 0.1 (rng w) = (Inr (X, y), g)"
       "train_test_split L X y 0.25 False = Inr (train_X, test_X, train_y, test_y)"
       "imputer_fit_transform L train_X = Inr train_X'"
       "imputer_transform L train_X test_X = Inr test_X'"
       "w1 = w\<lparr>rng := g, trace := trace w @ [MakeRegression 200 5 0.1,
                     TrainTestSplit X y 0.25 False, NewSimpleImputer, ImputerFitTransform train_X,
                     ImputerTransform test_X]\<rparr>"
    by blast
  from train_model_success [OF s2 [unfolded r2]]
  obtain m0 bs bi where
    b: "XGBRegressor L (n_estimators self) (learning_rate self) = Inr m0"
       "model_fit L m0 train_X' train_y 40 [(test_X', test_y)] = Inr m"
       "best_score L m = Inr bs" "best_iteration L m = Inr bi"
       "w2 = w1\<lparr>trace := trace w1 @ [NewXGBRegressor (n_estimators self) (learning_rate self),
                     Fit m0 train_X' train_y 40 [(test_X', test_y)],
                     Print [PStr ''Best RMSE on eval: %.2f with %d rounds'', PFloat bs,
                            PInt (bi + 1)]]\<rparr>"
    by blast
  from eval_model_success [OF s3 [unfolded r3]]
  obtain p mae where
    c: "model_predict L m test_X' = Inr p" "mean_absolute_error L p test_y = Inr mae"
       "w3 = w2\<lparr>trace := trace w2 @ [ModelPredict m test_X', MeanAbsoluteError p test_y,
                     LogInfo ''mean_absolute_error=%.2f'' [PFloat mae]]\<rparr>"
    by blast
  from save_model_success [OF s4]
  obtain fs where
    d: "joblib_dump L m (model_file self) (files w3) = (Inr (), fs)"
       "w4 = w3\<lparr>files := fs, trace := trace w3 @ [JoblibDump m (model_file self),
                     LogInfo ''Model export success: %s'' [PStr (model_file self)]]\<rparr>"
    by blast
  have f: "files w3 = files w"
    using a(5) b(5) c(3) by simp
  have d': "joblib_dump L m (model_file self) (files w) = (Inr (), fs)"
    using d(1) f by simp
  have "snd (train L self w) = w4"
    using t s4 by simp
  also have "w4 = w\<lparr>files := fs, rng := g, trace := trace w @
              [MakeRegression 200 5 0.1,
               TrainTestSplit X y 0.25 False,
               NewSimpleImputer, ImputerFitTransform train_X,
               ImputerTransform test_X,
               NewXGBRegressor (n_estimators self) (learning_rate self),
               Fit m0 train_X' train_y 40 [(test_X', test_y)],
               Print [PStr ''Best RMSE on eval: %.2f with %d rounds'', PFloat bs, PInt (bi + 1)],
               ModelPredict m test_X',
               MeanAbsoluteError p test_y,
               LogInfo ''mean_absolute_error=%.2f'' [PFloat mae],
               JoblibDump m (model_file self),
               LogInfo ''Model export success: %s'' [PStr (model_file self)]]\<rparr>"
    unfolding d(2) c(3) b(5) a(5) by simp
  finally have fin: "snd (train L self w) = w\<lparr>files := fs, rng := g, trace := trace w @
              [MakeRegression 200 5 0.1,
               TrainTestSplit X y 0.25 False,
               NewSimpleImputer, ImputerFitTransform train_X,
               ImputerTransform test_X,
               NewXGBRegressor (n_estimators self) (learning_rate self),
               Fit m0 train_X' train_y 40 [(test_X', test_y)],
               Print [PStr ''Best RMSE on eval: %.2f with %d rounds'', PFloat bs, PInt (bi + 1)],
               ModelPredict m test_X',
               MeanAbsoluteError p test_y,
               LogInfo ''mean_absolute_error=%.2f'' [PFloat mae],
               JoblibDump m (model_file self),
               LogInfo ''Model export success: %s'' [PStr (model_file self)]]\<rparr>" .
  from a(1-4) b(1-4) c(1,2) d' fin show ?thesis
    by blast
qed


subsection \<open>Repeated calls of predict\<close>




lemma demo_init:
  "HousingServe_init (Some (c # cs)) demo_world =
     (\<lparr>n_estimators = 50, learning_rate = 0.1, model_file = c # cs, model = None\<rparr>,
      demo_world\<lparr>trace := [Print [PStr (''model_file='' @ c # cs)]]\<rparr>)"
  by (simp add: HousingServe_init_def str_falsy_def demo_world_def)

subsection \<open>Patterns and changed files\<close>

lemma fnmatch_star: "fnmatch f ''*''"
  by (induction f) simp_all

lemma fnmatch_literal_star:
  "CHR ''*'' \<notin> set d \<Longrightarrow> CHR ''?'' \<notin> set d \<Longrightarrow> fnmatch f (d @ ''*'') = prefix d f"
proof (induction d arbitrary: f)
  case Nil
  show ?case by (simp add: fnmatch_star)
next
  case (Cons c d)
  then show ?case by (cases f) auto
qed

lemmas e2e_patterns =
  fnmatch_literal_star [of "''code_search/''", simplified]
  fnmatch_literal_star [of "''mnist/''", simplified]
  fnmatch_literal_star [of "''github_issue_summarization/''", simplified]
  fnmatch_literal_star [of "''xgboost_ames_housing/''", simplified]
  fnmatch_literal_star [of "''pytorch_mnist/''", simplified]

lemmas workflow_defs =
  unittests_def code_search_def mnist_def gis_def xgboost_def pytorch_mnist_def

lemma workflow_fields:
  "job_types unittests = [''presubmit'', ''postsubmit'', ''periodic'']"
  "job_types code_search = [''presubmit'', ''postsubmit'']"
  "job_types mnist = [''periodic'', ''presubmit'', ''postsubmit'']"
  "job_types gis = [''periodic'', ''presubmit'', ''postsubmit'']"
  "job_types xgboost = [''presubmit'', ''postsubmit'']"
  "job_types pytorch_mnist = [''periodic'', ''presubmit'', ''postsubmit'']"
  "include_dirs unittests = []"
  "include_dirs code_search = [''code_search/*'']"
  "include_dirs mnist = [''mnist/*'']"
  "include_dirs gis = [''github_issue_summarization/*'']"
  "include_dirs xgboost = [''xgboost_ames_housing/*'']"
  "include_dirs pytorch_mnist = [''pytorch_mnist/*'']"
  "name unittests = ''unittests''"
  "name code_search = ''code-search''"
  "name mnist = ''mnist''"
  "name gis = ''gis''"
  "name xgboost = ''xgboost''"
  "name pytorch_mnist = ''pytorch-mnist''"
  by (simp_all add: workflow_defs)

lemma confined_elem: "confined_to d changed \<Longrightarrow> \<exists>f. f \<in> set changed \<and> prefix (d @ ''/'') f"
  by (cases changed) (auto simp: confined_to_def)

lemma confined_all: "confined_to d changed \<Longrightarrow> f \<in> set changed \<Longrightarrow> prefix (d @ ''/'') f"
  by (simp add: confined_to_def list_all_iff)

lemma prefix_same_head: "prefix (c # cs) f \<Longrightarrow> prefix (c' # cs') f \<Longrightarrow> c = c'"
  by (cases f) auto

lemma dm_code_search:
  assumes c: "confined_to ''code_search'' changed"
  shows "dir_modified code_search changed" "\<not> dir_modified mnist changed"
    "\<not> dir_modified gis changed" "\<not> dir_modified xgboost changed"
    "\<not> dir_modified pytorch_mnist changed"
  using confined_elem [OF c] confined_all [OF c]
  by (auto simp: dir_modified_def list_ex_iff workflow_defs e2e_patterns
        dest: prefix_same_head)

lemma dm_mnist:
  assumes c: "confined_to ''mnist'' changed"
  shows "\<not> dir_modified code_search changed" "dir_modified mnist changed" "\<not> dir_modified gis changed" "\<not> dir_modified xgboost changed" "\<not> dir_modified pytorch_mnist changed"
  using confined_elem [OF c] confined_all [OF c]
  by (auto simp: dir_modified_def list_ex_iff workflow_defs e2e_patterns
        dest: prefix_same_head)

lemma dm_gis:
  assumes c: "confined_to ''github_issue_summarization'' changed"
  shows "\<not> dir_modified code_search changed" "\<not> dir_modified mnist changed" "dir_modified gis changed" "\<not> dir_modified xgboost changed" "\<not> dir_modified pytorch_mnist changed"
  using confined_elem [OF c] confined_all [OF c]
  by (auto simp: dir_modified_def list_ex_iff workflow_defs e2e_patterns
        dest: prefix_same_head)

lemma dm_xgboost:
  assumes c: "confined_to ''xgboost_ames_housing'' changed"
  shows "\<not> dir_modified code_search changed" "\<not> dir_modified mnist changed" "\<not> dir_modified gis changed" "dir_modified xgboost changed" "\<not> dir_modified pytorch_mnist changed"
  using confined_elem [OF c] confined_all [OF c]
  by (auto simp: dir_modified_def list_ex_iff workflow_defs e2e_patterns
        dest: prefix_same_head)

lemma dm_pytorch_mnist:
  assumes c: "confined_to ''pytorch_mnist'' changed"
  shows "\<not> dir_modified code_search changed" "\<not> dir_modified mnist changed" "\<not> dir_modified gis changed" "\<not> dir_modified xgboost changed" "dir_modified pytorch_mnist changed"
  using confined_elem [OF c] confined_all [OF c]
  by (auto simp: dir_modified_def list_ex_iff workflow_defs e2e_patterns
        dest: prefix_same_head)

lemmas dm_values = dm_code_search dm_mnist dm_gis dm_xgboost dm_pytorch_mnist

subsection \<open>The split under the documented behaviour of scikit-learn\<close>






section \<open>Construction of a HousingServe object\<close>

text \<open>
  C8. For a construction with no model_file argument or a falsy one, model_file is the
  value of the environment variable MODEL_FILE when it is set and "mockup-model.dat"
  otherwise; a truthy argument is stored unchanged; in every case n_estimators = 50,
  learning_rate = 0.1 and model = None.
\<close>

theorem HousingServe_init_state:
  fixes w :: "('m, 'p) world"
  shows "(str_falsy arg \<longrightarrow> environ w ''MODEL_FILE'' = Some v \<longrightarrow>
            model_file (fst (HousingServe_init arg w)) = v)
       \<and> (str_falsy arg \<longrightarrow> environ w ''MODEL_FILE'' = None \<longrightarrow>
            model_file (fst (HousingServe_init arg w)) = ''mockup-model.dat'')
       \<and> (\<not> str_falsy arg \<longrightarrow> Some (model_file (fst (HousingServe_init arg w))) = arg)
       \<and> n_estimators (fst (HousingServe_init arg w)) = 50
       \<and> learning_rate (fst (HousingServe_init arg w)) = 0.1
       \<and> model (fst (HousingServe_init arg w)) = None"
  by (auto simp: HousingServe_init_def str_falsy_def Let_def split: option.splits)

theorem HousingServe_init_state_witness:
  "str_falsy None \<and> environ env_world ''MODEL_FILE'' = Some ''served.dat''
     \<and> model_file (fst (HousingServe_init None env_world)) = ''served.dat''
   \<and> str_falsy (Some []) \<and> environ demo_world ''MODEL_FILE'' = None
     \<and> model_file (fst (HousingServe_init (Some []) demo_world)) = ''mockup-model.dat''
   \<and> \<not> str_falsy (Some ''m.dat'')
     \<and> model_file (fst (HousingServe_init (Some ''m.dat'') demo_world)) = ''m.dat''"
  using HousingServe_init_state [of None env_world "''served.dat''"]
        HousingServe_init_state [of "Some []" demo_world]
        HousingServe_init_state [of "Some ''m.dat''" demo_world]
  by (simp add: str_falsy_def env_world_def demo_world_def)

section \<open>Prediction\<close>

text \<open>
  C1. For an input X with at least one row and a loadable model file, predict loads the
  model with a single joblib.load call if it is not loaded yet, calls the library's predict
  on X, and returns a list of exactly one pair, both components being the first element of
  the prediction, however many rows X has. The library's predict returns one value per row
  of X.
\<close>

theorem predict_result:
  fixes L :: "('m, 'p) libs" and w :: "('m, 'p) world"
  assumes rows: "X \<noteq> []"
    and load: "not_model L (model self) \<Longrightarrow>
                 joblib_load L (files w) (model_file self) = Inr (Some m)"
    and cached: "\<not> not_model L (model self) \<Longrightarrow> model self = Some m"
    and pred: "model_predict L m X = Inr p"
    and per_row: "length p = length X"
  shows "fst (predict L X feature_names (self, w)) = Inr [[p ! 0, p ! 0]]
       \<and> new_events w (snd (snd (predict L X feature_names (self, w)))) =
           (if not_model L (model self) then [JoblibLoad (model_file self)] else [])
           @ [ModelPredict m X]
       \<and> model (fst (snd (predict L X feature_names (self, w)))) = Some m"
proof -
  have p: "item p 0 = Inr (p ! 0)"
    using rows per_row by (simp add: item_def)
  show ?thesis
  proof (cases "not_model L (model self)")
    case True
    with load [OF True] pred p show ?thesis
      by (simp add: predict_def prog_defs new_events_def)
  next
    case False
    with cached [OF False] pred p show ?thesis
      by (simp add: predict_def prog_defs new_events_def)
  qed
qed

theorem predict_result_witness:
  "fst (predict demo_libs [[1, 2, 3, 4, 5], [0, 0, 0, 0, 0]] None
          (fst (HousingServe_init None demo_world), demo_world)) = Inr [[65, 65]]
   \<and> new_events demo_world (snd (snd (predict demo_libs [[1, 2, 3, 4, 5], [0, 0, 0, 0, 0]] None
          (fst (HousingServe_init None demo_world), demo_world)))) =
       [JoblibLoad ''mockup-model.dat'', ModelPredict 50 [[1, 2, 3, 4, 5], [0, 0, 0, 0, 0]]]"
proof -
  let ?X = "[[1, 2, 3, 4, 5], [0, 0, 0, 0, 0::real]]"
  let ?self = "fst (HousingServe_init None demo_world) :: nat HousingServe"
  have mf: "model_file ?self = ''mockup-model.dat''"
    by (simp add: HousingServe_init_def str_falsy_def demo_world_def)
  have mo: "model ?self = None"
    by (simp add: HousingServe_init_def str_falsy_def demo_world_def)
  have nm: "not_model demo_libs (model ?self)"
    unfolding mo by (simp add: not_model_def)
  have ld: "joblib_load demo_libs (files demo_world) (model_file ?self) = Inr (Some 50)"
    unfolding mf by (simp add: demo_libs_def demo_world_def)
  have pr: "model_predict demo_libs 50 ?X = Inr [65, 50]"
    by (simp add: demo_libs_def)
  from predict_result [of ?X demo_libs ?self demo_world 50 "[65, 50]" None] nm ld pr mf
  show ?thesis by simp
qed

section \<open>Training\<close>

text \<open>
  C2. train performs, in this order: the generation of the synthetic data set by
  read_synthetic_input (make_regression, the split, the two imputer calls), the fit by
  train_model on the training split (constructor, fit, the printed summary), the
  evaluation on the test split (predict, mean_absolute_error, the log record), and the
  save of the fitted model to self.model_file (joblib.dump, the log record). It does
  nothing else: whatever the libraries return, the events of train are a prefix of this
  sequence, the whole sequence exactly when train returns, and then the world differs
  from the initial one in these events, the random state and the files joblib.dump wrote.
\<close>

theorem train_steps:
  fixes L :: "('m, 'p) libs" and w :: "('m, 'p) world"
  shows "prefix (map kind_of (new_events w (snd (train L self w))))
           (read_kinds @ train_model_kinds @ eval_kinds @ save_kinds)
       \<and> ((fst (train L self w) = Inr ()) =
            (map kind_of (new_events w (snd (train L self w))) =
               read_kinds @ train_model_kinds @ eval_kinds @ save_kinds))
       \<and> (fst (train L self w) = Inr () \<longrightarrow>
           (\<exists>X y g train_X test_X train_y test_y train_X' test_X' m0 m bs bi p mae fs.
              make_regression L 200 5 0.1 (rng w) = (Inr (X, y), g)
            \<and> train_test_split L X y 0.25 False = Inr (train_X, test_X, train_y, test_y)
            \<and> imputer_fit_transform L train_X = Inr train_X'
            \<and> imputer_transform L train_X test_X = Inr test_X'
            \<and> XGBRegressor L (n_estimators self) (learning_rate self) = Inr m0
            \<and> model_fit L m0 train_X' train_y 40 [(test_X', test_y)] = Inr m
            \<and> best_score L m = Inr bs \<and> best_iteration L m = Inr bi
            \<and> model_predict L m test_X' = Inr p
            \<and> mean_absolute_error L p test_y = Inr mae
            \<and> joblib_dump L m (model_file self) (files w) = (Inr (), fs)
            \<and> snd (train L self w) = w\<lparr>files := fs, rng := g, trace := trace w @
                 [MakeRegression 200 5 0.1,
                  TrainTestSplit X y 0.25 False,
                  NewSimpleImputer, ImputerFitTransform train_X,
                  ImputerTransform test_X,
                  NewXGBRegressor (n_estimators self) (learning_rate self),
                  Fit m0 train_X' train_y 40 [(test_X', test_y)],
                  Print [PStr ''Best RMSE on eval: %.2f with %d rounds'', PFloat bs,
                         PInt (bi + 1)],
                  ModelPredict m test_X',
                  MeanAbsoluteError p test_y,
                  LogInfo ''mean_absolute_error=%.2f'' [PFloat mae],
                  JoblibDump m (model_file self),
                  LogInfo ''Model export success: %s'' [PStr (model_file self)]]\<rparr>))"
proof (intro conjI impI)
  from train_trace [of L self w] obtain evs where
    e: "trace (snd (train L self w)) = trace w @ evs"
       "prefix (map kind_of evs) (read_kinds @ train_model_kinds @ eval_kinds @ save_kinds)"
       "(fst (train L self w) = Inr ()) =
          (map kind_of evs = read_kinds @ train_model_kinds @ eval_kinds @ save_kinds)"
    by blast
  have n: "new_events w (snd (train L self w)) = evs"
    using e(1) by (rule new_events_append)
  show "prefix (map kind_of (new_events w (snd (train L self w))))
           (read_kinds @ train_model_kinds @ eval_kinds @ save_kinds)"
    unfolding n by (rule e(2))
  show "(fst (train L self w) = Inr ()) =
            (map kind_of (new_events w (snd (train L self w))) =
               read_kinds @ train_model_kinds @ eval_kinds @ save_kinds)"
    unfolding n by (rule e(3))
next
  assume "fst (train L self w) = Inr ()"
  then show "\<exists>X y g train_X test_X train_y test_y train_X' test_X' m0 m bs bi p mae fs.
              make_regression L 200 5 0.1 (rng w) = (Inr (X, y), g)
            \<and> train_test_split L X y 0.25 False = Inr (train_X, test_X, train_y, test_y)
            \<and> imputer_fit_transform L train_X = Inr train_X'
            \<and> imputer_transform L train_X test_X = Inr test_X'
            \<and> XGBRegressor L (n_estimators self) (learning_rate self) = Inr m0
            \<and> model_fit L m0 train_X' train_y 40 [(test_X', test_y)] = Inr m
            \<and> best_score L m = Inr bs \<and> best_iteration L m = Inr bi
            \<and> model_predict L m test_X' = Inr p
            \<and> mean_absolute_error L p test_y = Inr mae
            \<and> joblib_dump L m (model_file self) (files w) = (Inr (), fs)
            \<and> snd (train L self w) = w\<lparr>files := fs, rng := g, trace := trace w @
                 [MakeRegression 200 5 0.1,
                  TrainTestSplit X y 0.25 False,
                  NewSimpleImputer, ImputerFitTransform train_X,
                  ImputerTransform test_X,
                  NewXGBRegressor (n_estimators self) (learning_rate self),
                  Fit m0 train_X' train_y 40 [(test_X', test_y)],
                  Print [PStr ''Best RMSE on eval: %.2f with %d rounds'', PFloat bs,
                         PInt (bi + 1)],
                  ModelPredict m test_X',
                  MeanAbsoluteError p test_y,
                  LogInfo ''mean_absolute_error=%.2f'' [PFloat mae],
                  JoblibDump m (model_file self),
                  LogInfo ''Model export success: %s'' [PStr (model_file self)]]\<rparr>"
    by (rule train_success)
qed

theorem train_steps_witness:
  "fst (train demo_libs (fst (HousingServe_init (Some ''mockup-model.dat'') demo_world))
          (snd (HousingServe_init (Some ''mockup-model.dat'') demo_world))) = Inr ()
   \<and> map kind_of
        (new_events (snd (HousingServe_init (Some ''mockup-model.dat'') demo_world))
           (snd (train demo_libs
                  (fst (HousingServe_init (Some ''mockup-model.dat'') demo_world))
                  (snd (HousingServe_init (Some ''mockup-model.dat'') demo_world))))) =
       [KMakeRegression, KTrainTestSplit, KNewSimpleImputer, KImputerFitTransform,
        KImputerTransform,
        KNewXGBRegressor, KFit, KPrint, KModelPredict, KMeanAbsoluteError, KLogInfo,
        KJoblibDump, KLogInfo]"
proof -
  let ?self = "\<lparr>n_estimators = 50, learning_rate = 0.1, model_file = ''mockup-model.dat'',
                model = None :: nat option\<rparr>"
  let ?w = "demo_world\<lparr>trace := [Print [PStr (''model_file='' @ ''mockup-model.dat'')]]\<rparr>"
  have ok: "fst (train demo_libs ?self ?w) = Inr ()"
    by (simp add: train_cases stage_cases demo_libs_def demo_split_def)
  from train_steps [of ?w demo_libs ?self] ok
  show ?thesis
    unfolding demo_init by (simp add: kinds_defs)
qed

section \<open>The compiled pipeline\<close>

text \<open>
  C3. The pipeline the notebook compiles is a graph with exactly one node and no edge:
  train_pipeline defines the single op "train", whose command runs the preprocessed
  executable with the argument "train".
\<close>

theorem train_pipeline_single_node:
  "compile_pipeline (train_pipeline executable_name image_tag) =
     ([\<lparr>op_name = ''train'', op_image = image_tag,
        op_command = [''python'', executable_name, ''train''],
        op_working_dir = Some ''/app'', op_secrets = [''user-gcp-sa''], op_after = []\<rparr>],
      [])"
  by (simp add: compile_pipeline_def train_pipeline_def ContainerOp_def use_gcp_secret_def)

section \<open>Exceptions\<close>



section \<open>The saved model file\<close>



section \<open>Which change triggers which workflow\<close>

text \<open>
  C6. The configuration lists unittests first and then the five E2E workflows. Each E2E
  workflow has exactly one include_dirs pattern, the directory of its own example followed
  by "/*", which matches exactly the paths below that directory; unittests has no
  include_dirs and lists the three job types presubmit, postsubmit and periodic. So a
  presubmit or postsubmit for a change confined to the directory of one example triggers
  unittests and the E2E workflow of that example, and no other workflow.
\<close>

theorem e2e_triggers:
  "workflows = unittests # map fst e2e_examples
   \<and> include_dirs unittests = []
   \<and> set (job_types unittests) = {''presubmit'', ''postsubmit'', ''periodic''}
   \<and> (\<forall>(wk, dir) \<in> set e2e_examples.
         include_dirs wk = [dir @ ''/*'']
         \<and> (\<forall>f. list_ex (fnmatch f) (include_dirs wk) = prefix (dir @ ''/'') f))
   \<and> (\<forall>(wk, dir) \<in> set e2e_examples. \<forall>job_type \<in> {''presubmit'', ''postsubmit''}.
         \<forall>changed_files. confined_to dir changed_files \<longrightarrow>
           triggered job_type changed_files = [''unittests'', name wk])"
proof (intro conjI)
  show "workflows = unittests # map fst e2e_examples"
    by (simp add: workflows_def e2e_examples_def)
  show "include_dirs unittests = []"
    by (simp add: workflow_fields)
  show "set (job_types unittests) = {''presubmit'', ''postsubmit'', ''periodic''}"
    by (simp add: workflow_fields)
  show "\<forall>(wk, dir) \<in> set e2e_examples.
         include_dirs wk = [dir @ ''/*'']
         \<and> (\<forall>f. list_ex (fnmatch f) (include_dirs wk) = prefix (dir @ ''/'') f)"
    by (simp add: e2e_examples_def workflow_fields e2e_patterns)
  show "\<forall>(wk, dir) \<in> set e2e_examples. \<forall>job_type \<in> {''presubmit'', ''postsubmit''}.
         \<forall>changed_files. confined_to dir changed_files \<longrightarrow>
           triggered job_type changed_files = [''unittests'', name wk]"
    by (simp add: e2e_examples_def triggered_def workflows_def should_run_def
          workflow_fields dm_values)
qed

theorem e2e_triggers_witness:
  "(mnist, ''mnist'') \<in> set e2e_examples
   \<and> ''presubmit'' \<in> {''presubmit'', ''postsubmit''}
   \<and> confined_to ''mnist'' [''mnist/README.md'', ''mnist/model.py'']
   \<and> triggered ''presubmit'' [''mnist/README.md'', ''mnist/model.py''] = [''unittests'', ''mnist'']"
proof -
  have m: "(mnist, ''mnist'') \<in> set e2e_examples"
    by (simp add: e2e_examples_def)
  have c: "confined_to ''mnist'' [''mnist/README.md'', ''mnist/model.py'']"
    by (simp add: confined_to_def)
  note t = e2e_triggers [THEN conjunct2, THEN conjunct2, THEN conjunct2, THEN conjunct2]
  from t m have "\<forall>job_type \<in> {''presubmit'', ''postsubmit''}.
      \<forall>changed_files. confined_to ''mnist'' changed_files \<longrightarrow>
        triggered job_type changed_files = [''unittests'', name mnist]"
    by blast
  then have "triggered ''presubmit'' [''mnist/README.md'', ''mnist/model.py''] =
      [''unittests'', name mnist]"
    using c by blast
  with m c show ?thesis
    by (simp add: workflow_fields)
qed

section \<open>Caching of the loaded model\<close>




section \<open>The synthetic data and its split\<close>




end
